theory Spec2Isabelle
  imports Main "HOL-Library.Word"
begin

section \<open>Python strings\<close>

text \<open>
  A Python \<open>str\<close> is modelled as a \<open>string\<close>: a list of characters with code points
  below 256. The helpers below are the \<open>str\<close> methods the program calls, on that range.
\<close>

type_synonym bytes = "8 word list"

definition py_isspace :: "char \<Rightarrow> bool" where
  \<comment> \<open>\<open>str.isspace\<close> on one character: U+0009..U+000D, U+001C..U+0020, U+0085, U+00A0.\<close>
  "py_isspace c =
     (let n = (of_char c :: nat)
      in (9 \<le> n \<and> n \<le> 13) \<or> (28 \<le> n \<and> n \<le> 32) \<or> n = 133 \<or> n = 160)"

definition py_strip :: "string \<Rightarrow> string" where
  \<comment> \<open>\<open>s.strip()\<close>\<close>
  "py_strip s = rev (dropWhile py_isspace (rev (dropWhile py_isspace s)))"

definition py_lstrip :: "string \<Rightarrow> string \<Rightarrow> string" where
  \<comment> \<open>\<open>s.lstrip(chars)\<close>: drops every leading character that is in \<open>chars\<close>.\<close>
  "py_lstrip chars s = dropWhile (\<lambda>c. c \<in> set chars) s"

definition py_lower_char :: "char \<Rightarrow> char" where
  \<comment> \<open>\<open>c.lower()\<close>: the letters A..Z by table, U+00C0..U+00DE (but U+00D7) by adding 32.\<close>
  "py_lower_char c =
     (case map_of (zip ''ABCDEFGHIJKLMNOPQRSTUVWXYZ'' ''abcdefghijklmnopqrstuvwxyz'') c of
        Some l \<Rightarrow> l
      | None \<Rightarrow>
          (let n = (of_char c :: nat)
           in if 192 \<le> n \<and> n \<le> 222 \<and> n \<noteq> 215 then char_of (n + 32) else c))"

definition py_lower :: "string \<Rightarrow> string" where
  \<comment> \<open>\<open>s.lower()\<close>\<close>
  "py_lower s = map py_lower_char s"

fun py_startswith :: "string \<Rightarrow> string \<Rightarrow> bool" where
  \<comment> \<open>\<open>s.startswith(p)\<close>, written \<open>py_startswith p s\<close>\<close>
  "py_startswith [] s = True"
| "py_startswith (p # ps) [] = False"
| "py_startswith (p # ps) (c # cs) = (p = c \<and> py_startswith ps cs)"

fun py_contains :: "string \<Rightarrow> string \<Rightarrow> bool" where
  \<comment> \<open>\<open>sub in s\<close>, written \<open>py_contains sub s\<close>\<close>
  "py_contains sub [] = (sub = [])"
| "py_contains sub (c # cs) = (py_startswith sub (c # cs) \<or> py_contains sub cs)"

fun py_split :: "char \<Rightarrow> string \<Rightarrow> string list" where
  \<comment> \<open>\<open>s.split(sep)\<close> for a separator of one character: never the empty list.\<close>
  "py_split sep [] = [[]]"
| "py_split sep (c # cs) =
     (if c = sep then [] # py_split sep cs
      else (case py_split sep cs of
              [] \<Rightarrow> [[c]]
            | seg # segs \<Rightarrow> (c # seg) # segs))"

fun py_join :: "string \<Rightarrow> string list \<Rightarrow> string" where
  \<comment> \<open>\<open>sep.join(parts)\<close>\<close>
  "py_join sep [] = []"
| "py_join sep [x] = x"
| "py_join sep (x # y # ys) = x @ sep @ py_join sep (y # ys)"

section \<open>Exceptions\<close>

text \<open>
  Every exception the program can meet is a value. All of them are subclasses of
  \<open>Exception\<close>, which is what the handlers of the program catch.
\<close>

datatype exn =
    ValueError
  | RequestException string
  | HTTPError nat
  | ParserError
  | StorageError string
  | DatabaseError string

section \<open>urllib.parse\<close>

text \<open>
  The functions of the standard library that the program calls, after CPython 3.11.
  \<open>urlsplit\<close> raises \<open>ValueError\<close> on a network location with unbalanced brackets and on
  a bracketed host that is not an IPv6 or IPvFuture address; that last test
  (\<open>_check_bracketed_host\<close>, absent before 3.11) is the parameter \<open>bh\<close>. The
  normalisation test \<open>_checknetloc\<close> never fires on code points below 256.
\<close>

definition uses_relative :: "string list" where
  "uses_relative = [[], ''ftp'', ''http'', ''gopher'', ''nntp'', ''imap'',
     ''wais'', ''file'', ''https'', ''shttp'', ''mms'',
     ''prospero'', ''rtsp'', ''rtsps'', ''rtspu'', ''sftp'',
     ''svn'', ''svn+ssh'', ''ws'', ''wss'']"

definition uses_netloc :: "string list" where
  "uses_netloc = [[], ''ftp'', ''http'', ''gopher'', ''nntp'', ''telnet'',
     ''imap'', ''wais'', ''file'', ''mms'', ''https'', ''shttp'',
     ''snews'', ''prospero'', ''rtsp'', ''rtsps'', ''rtspu'', ''rsync'',
     ''svn'', ''svn+ssh'', ''sftp'', ''nfs'', ''git'', ''git+ssh'',
     ''ws'', ''wss'']"

definition uses_params :: "string list" where
  "uses_params = [[], ''ftp'', ''hdl'', ''prospero'', ''http'', ''imap'',
     ''https'', ''shttp'', ''rtsp'', ''rtsps'', ''rtspu'', ''sip'',
     ''sips'', ''mms'', ''sftp'', ''tel'']"

definition scheme_chars :: string where
  "scheme_chars = ''abcdefghijklmnopqrstuvwxyzABCDEFGHIJKLMNOPQRSTUVWXYZ0123456789+-.''"

definition ascii_alpha :: "char \<Rightarrow> bool" where
  \<comment> \<open>\<open>c.isascii() and c.isalpha()\<close>\<close>
  "ascii_alpha c = (c \<in> set ''abcdefghijklmnopqrstuvwxyzABCDEFGHIJKLMNOPQRSTUVWXYZ'')"

definition c0_control_or_space :: "char \<Rightarrow> bool" where
  \<comment> \<open>membership in \<open>_WHATWG_C0_CONTROL_OR_SPACE\<close>: the code points 0 to 32\<close>
  "c0_control_or_space c = ((of_char c :: nat) \<le> 32)"

definition unsafe_url_byte :: "char \<Rightarrow> bool" where
  \<comment> \<open>membership in \<open>_UNSAFE_URL_BYTES_TO_REMOVE\<close>: tab, carriage return, line feed\<close>
  "unsafe_url_byte c = ((of_char c :: nat) \<in> {9, 13, 10})"

definition before :: "char \<Rightarrow> string \<Rightarrow> string" where
  \<comment> \<open>\<open>s[:s.find(c)]\<close> when \<open>c\<close> occurs in \<open>s\<close>\<close>
  "before c s = takeWhile (\<lambda>x. x \<noteq> c) s"

definition after :: "char \<Rightarrow> string \<Rightarrow> string" where
  \<comment> \<open>\<open>s[s.find(c) + 1:]\<close> when \<open>c\<close> occurs in \<open>s\<close>\<close>
  "after c s = drop 1 (dropWhile (\<lambda>x. x \<noteq> c) s)"

definition splitnetloc :: "string \<Rightarrow> string \<times> string" where
  \<comment> \<open>\<open>_splitnetloc(url, 2)\<close>, given \<open>url[2:]\<close>: the part before the first of \<open>/?#\<close>, and the rest\<close>
  "splitnetloc rest =
     (takeWhile (\<lambda>c. c \<notin> set ''/?#'') rest, dropWhile (\<lambda>c. c \<notin> set ''/?#'') rest)"

definition urlsplit ::
  "(string \<Rightarrow> bool) \<Rightarrow> string \<Rightarrow> string \<Rightarrow> exn + (string \<times> string \<times> string \<times> string \<times> string)" where
  \<comment> \<open>\<open>urlsplit(url, scheme)\<close>: scheme, netloc, path, query, fragment\<close>
  "urlsplit bh url0 scheme0 =
     (let url1 = filter (\<lambda>c. \<not> unsafe_url_byte c) (dropWhile c0_control_or_space url0);
          scheme1 = filter (\<lambda>c. \<not> unsafe_url_byte c)
                      (rev (dropWhile c0_control_or_space (rev (dropWhile c0_control_or_space scheme0))));
          pre = before CHR '':'' url1;
          has_scheme = (CHR '':'' \<in> set url1
                        \<and> (case pre of [] \<Rightarrow> False | c # _ \<Rightarrow> ascii_alpha c)
                        \<and> list_all (\<lambda>c. c \<in> set scheme_chars) pre);
          scheme2 = (if has_scheme then py_lower pre else scheme1);
          url2 = (if has_scheme then after CHR '':'' url1 else url1);
          has_netloc = (take 2 url2 = ''//'');
          netloc = (if has_netloc then fst (splitnetloc (drop 2 url2)) else []);
          url3 = (if has_netloc then snd (splitnetloc (drop 2 url2)) else url2)
      in if has_netloc \<and> ((CHR ''['' \<in> set netloc \<and> CHR '']'' \<notin> set netloc)
                          \<or> (CHR '']'' \<in> set netloc \<and> CHR ''['' \<notin> set netloc))
         then Inl ValueError
         else if has_netloc \<and> CHR ''['' \<in> set netloc \<and> CHR '']'' \<in> set netloc
                 \<and> \<not> bh (before CHR '']'' (after CHR ''['' netloc))
         then Inl ValueError
         else
           (let fragment = (if CHR ''#'' \<in> set url3 then after CHR ''#'' url3 else []);
                url4 = (if CHR ''#'' \<in> set url3 then before CHR ''#'' url3 else url3);
                query = (if CHR ''?'' \<in> set url4 then after CHR ''?'' url4 else []);
                url5 = (if CHR ''?'' \<in> set url4 then before CHR ''?'' url4 else url4)
            in Inr (scheme2, netloc, url5, query, fragment)))"

definition splitparams :: "string \<Rightarrow> string \<times> string" where
  \<comment> \<open>\<open>_splitparams(url)\<close>, called when \<open>;\<close> occurs in \<open>url\<close>\<close>
  "splitparams url =
     (if CHR ''/'' \<in> set url
      then (let lastseg = rev (takeWhile (\<lambda>c. c \<noteq> CHR ''/'') (rev url));
                front = take (length url - length lastseg) url
            in if CHR '';'' \<in> set lastseg
               then (front @ before CHR '';'' lastseg, after CHR '';'' lastseg)
               else (url, []))
      else (before CHR '';'' url, after CHR '';'' url))"

record parse_result =
  scheme :: string
  netloc :: string
  path :: string
  params :: string
  query :: string
  fragment :: string

definition urlparse :: "(string \<Rightarrow> bool) \<Rightarrow> string \<Rightarrow> string \<Rightarrow> exn + parse_result" where
  \<comment> \<open>\<open>urlparse(url, scheme)\<close>\<close>
  "urlparse bh url dflt =
     (case urlsplit bh url dflt of
        Inl e \<Rightarrow> Inl e
      | Inr (sch, nl, u, q, f) \<Rightarrow>
          (let sp = (sch \<in> set uses_params \<and> CHR '';'' \<in> set u)
           in Inr \<lparr>scheme = sch, netloc = nl,
                   path = (if sp then fst (splitparams u) else u),
                   params = (if sp then snd (splitparams u) else []),
                   query = q, fragment = f\<rparr>))"

definition urlunsplit :: "string \<Rightarrow> string \<Rightarrow> string \<Rightarrow> string \<Rightarrow> string \<Rightarrow> string" where
  "urlunsplit sch nl url q f =
     (let url1 = (if nl \<noteq> [] \<or> (sch \<noteq> [] \<and> sch \<in> set uses_netloc) \<or> take 2 url = ''//''
                  then ''//'' @ nl @ (if url \<noteq> [] \<and> take 1 url \<noteq> ''/'' then ''/'' @ url else url)
                  else url);
          url2 = (if sch \<noteq> [] then sch @ '':'' @ url1 else url1);
          url3 = (if q \<noteq> [] then url2 @ ''?'' @ q else url2)
      in if f \<noteq> [] then url3 @ ''#'' @ f else url3)"

definition urlunparse :: "parse_result \<Rightarrow> string" where
  "urlunparse r =
     urlunsplit (scheme r) (netloc r)
       (if params r \<noteq> [] then path r @ '';'' @ params r else path r)
       (query r) (fragment r)"

definition resolve_segments :: "string list \<Rightarrow> string list" where
  \<comment> \<open>the loop of \<open>urljoin\<close> over the segments: \<open>..\<close> pops (nothing, on an empty list),
      \<open>.\<close> is skipped, any other segment is appended\<close>
  "resolve_segments segments =
     fold (\<lambda>seg resolved.
             if seg = ''..'' then butlast resolved
             else if seg = ''.'' then resolved
             else resolved @ [seg]) segments []"

definition urljoin :: "(string \<Rightarrow> bool) \<Rightarrow> string \<Rightarrow> string \<Rightarrow> exn + string" where
  \<comment> \<open>\<open>urljoin(base, url)\<close>\<close>
  "urljoin bh base url =
     (if base = [] then Inr url
      else if url = [] then Inr base
      else
        case urlparse bh base [] of
          Inl e \<Rightarrow> Inl e
        | Inr b \<Rightarrow>
       (case urlparse bh url (scheme b) of
          Inl e \<Rightarrow> Inl e
        | Inr u \<Rightarrow>
          if scheme u \<noteq> scheme b \<or> scheme u \<notin> set uses_relative then Inr url
          else if scheme u \<in> set uses_netloc \<and> netloc u \<noteq> [] then Inr (urlunparse u)
          else
            (let nl = (if scheme u \<in> set uses_netloc then netloc b else netloc u)
             in if path u = [] \<and> params u = []
                then Inr (urlunparse (u\<lparr>netloc := nl, path := path b, params := params b,
                                        query := (if query u = [] then query b else query u)\<rparr>))
                else
                  (let base_parts0 = py_split CHR ''/'' (path b);
                       base_parts = (if last base_parts0 \<noteq> [] then butlast base_parts0
                                     else base_parts0);
                       joined = base_parts @ py_split CHR ''/'' (path u);
                       segments =
                         (if take 1 (path u) = ''/'' then py_split CHR ''/'' (path u)
                          else if length joined < 2 then joined
                          else hd joined # filter (\<lambda>s. s \<noteq> []) (butlast (tl joined)) @ [last joined]);
                       resolved0 = resolve_segments segments;
                       resolved = (if last segments \<in> {''.'', ''..''} then resolved0 @ [[]]
                                   else resolved0);
                       newpath = (if py_join ''/'' resolved = [] then ''/''
                                  else py_join ''/'' resolved)
                   in Inr (urlunparse (u\<lparr>netloc := nl, path := newpath\<rparr>))))))"

section \<open>The parsed document\<close>

text \<open>
  \<open>BeautifulSoup(content, "html.parser")\<close> yields a tree of tags; the program only calls
  \<open>soup.find\<close>, which returns the first tag, in document order, that matches. The
  document is therefore the list of its tags in document order. A tag has a name, its
  attributes and \<open>.string\<close> (\<open>None\<close> unless the tag has exactly one string beneath it).
  The parser stores the attributes that HTML defines as token lists (\<open>rel\<close>, \<open>class\<close>,
  ...) as lists of strings, and every other attribute (\<open>content\<close>, \<open>href\<close>, \<open>name\<close>,
  \<open>property\<close>) as one string; the record keeps the two kinds apart.
\<close>

record tag =
  tag_name :: string
  attrs :: "string \<rightharpoonup> string"
  multi_attrs :: "string \<rightharpoonup> string list"
  tag_string :: "string option"

type_synonym soup = "tag list"

definition match_attr :: "(string option \<Rightarrow> bool) \<Rightarrow> string \<Rightarrow> tag \<Rightarrow> bool" where
  \<comment> \<open>How \<open>find\<close> matches one attribute against a rule: on a token list, any token may
      match, or the tokens joined by single spaces; a missing attribute is \<open>None\<close>.\<close>
  "match_attr rule k t =
     (case multi_attrs t k of
        Some vs \<Rightarrow> list_ex (\<lambda>v. rule (Some v)) vs \<or> rule (Some (py_join '' '' vs))
      | None \<Rightarrow> rule (attrs t k))"

definition rule_eq :: "string \<Rightarrow> string option \<Rightarrow> bool" where
  \<comment> \<open>the rule of \<open>find(..., attr="value")\<close>\<close>
  "rule_eq v x = (x = Some v)"

definition rule_icon :: "string option \<Rightarrow> bool" where
  \<comment> \<open>\<open>lambda x: x and "icon" in x.lower()\<close>\<close>
  "rule_icon x = (case x of None \<Rightarrow> False | Some s \<Rightarrow> s \<noteq> [] \<and> py_contains ''icon'' (py_lower s))"

definition soup_find :: "string \<Rightarrow> (tag \<Rightarrow> bool) \<Rightarrow> soup \<Rightarrow> tag option" where
  \<comment> \<open>\<open>soup.find(name, ...)\<close>\<close>
  "soup_find nm p soup = find (\<lambda>t. tag_name t = nm \<and> p t) soup"

definition truthy_attr :: "tag option \<Rightarrow> string \<Rightarrow> string option" where
  \<comment> \<open>\<open>t and t.get(k)\<close> for an attribute \<open>k\<close> held as one string (a tag itself is always
      true): the value of \<open>t[k]\<close> when that test passes, else \<open>None\<close>.\<close>
  "truthy_attr t k =
     (case t of
        None \<Rightarrow> None
      | Some tg \<Rightarrow> (case attrs tg k of
                     None \<Rightarrow> None
                   | Some v \<Rightarrow> if v \<noteq> [] then Some v else None))"

section \<open>quoteback_utils: the extractors\<close>

definition extract_title :: "soup \<Rightarrow> string \<Rightarrow> string" where
  \<comment> \<open>\<open>_extract_title(soup, url)\<close>\<close>
  "extract_title soup url =
     (let og_title = soup_find ''meta'' (match_attr (rule_eq ''og:title'') ''property'') soup in
      case truthy_attr og_title ''content'' of
        Some c \<Rightarrow> c
      | None \<Rightarrow>
     (let twitter_title = soup_find ''meta'' (match_attr (rule_eq ''twitter:title'') ''name'') soup in
      case truthy_attr twitter_title ''content'' of
        Some c \<Rightarrow> c
      | None \<Rightarrow>
     (let title_tag = soup_find ''title'' (\<lambda>t. True) soup in
      case title_tag of
        None \<Rightarrow> url
      | Some t \<Rightarrow> (case tag_string t of
                     None \<Rightarrow> url
                   | Some s \<Rightarrow> if s \<noteq> [] then py_strip s else url))))"

definition extract_author :: "soup \<Rightarrow> string" where
  \<comment> \<open>\<open>_extract_author(soup)\<close>\<close>
  "extract_author soup =
     (let og_author = soup_find ''meta'' (match_attr (rule_eq ''article:author'') ''property'') soup in
      case truthy_attr og_author ''content'' of
        Some c \<Rightarrow> c
      | None \<Rightarrow>
     (let meta_author = soup_find ''meta'' (match_attr (rule_eq ''author'') ''name'') soup in
      case truthy_attr meta_author ''content'' of
        Some c \<Rightarrow> c
      | None \<Rightarrow>
     (let twitter_creator = soup_find ''meta'' (match_attr (rule_eq ''twitter:creator'') ''name'') soup in
      case truthy_attr twitter_creator ''content'' of
        Some creator \<Rightarrow> py_lstrip ''@'' creator
      | None \<Rightarrow> [])))"

definition extract_favicon_url :: "(string \<Rightarrow> bool) \<Rightarrow> soup \<Rightarrow> string \<Rightarrow> exn + string" where
  \<comment> \<open>\<open>_extract_favicon_url(soup, base_url)\<close>; \<open>urljoin\<close> and \<open>urlparse\<close> can raise\<close>
  "extract_favicon_url bh soup base_url =
     (let icon_link = soup_find ''link'' (match_attr rule_icon ''rel'') soup in
      case truthy_attr icon_link ''href'' of
        Some href \<Rightarrow> urljoin bh base_url href
      | None \<Rightarrow>
     (let apple_icon = soup_find ''link'' (match_attr (rule_eq ''apple-touch-icon'') ''rel'') soup in
      case truthy_attr apple_icon ''href'' of
        Some href \<Rightarrow> urljoin bh base_url href
      | None \<Rightarrow>
     (case urlparse bh base_url [] of
        Inl e \<Rightarrow> Inl e
      | Inr parsed \<Rightarrow> Inr (scheme parsed @ ''://'' @ netloc parsed @ ''/favicon.ico''))))"

section \<open>models: the Quoteback record\<close>

text \<open>
  The fields are those the admin form lists. A file field is the name of the stored
  file, and counts as set when that name is neither \<open>None\<close> nor empty. The tags are a
  many-to-many relation, kept here as the set of tag identifiers.
\<close>

record quoteback =
  pk :: "nat option"
  quote_text :: string
  commentary :: string
  title :: string
  slug :: string
  source_url :: string
  page_title :: string
  author :: string
  favicon :: "string option"
  tags :: "nat set"
  created :: nat
  is_draft :: bool
  series :: "nat option"
  card_image :: "string option"
  metadata :: string
  import_ref :: "string option"

definition pk_truthy :: "nat option \<Rightarrow> bool" where
  \<comment> \<open>truth value of \<open>instance.pk\<close>: \<open>None\<close> and 0 are false\<close>
  "pk_truthy p = (case p of None \<Rightarrow> False | Some n \<Rightarrow> n \<noteq> 0)"

definition file_truthy :: "string option \<Rightarrow> bool" where
  \<comment> \<open>truth value of a file field: \<open>bool(self.name)\<close>\<close>
  "file_truthy f = (case f of None \<Rightarrow> False | Some n \<Rightarrow> n \<noteq> [])"

section \<open>The world outside the program\<close>

text \<open>
  Each call that leaves the program is recorded as an event, in order. What the world
  answers is a parameter: the network and the storage may answer differently at each
  call (their answer depends on the events so far), the HTML parser and the test of a
  bracketed host are functions of their argument.
\<close>

record response =
  status_code :: nat
  content :: bytes

record content_file =
  cf_content :: bytes
  cf_name :: string

datatype event =
    HttpGet string "(string \<times> string) list" nat
  | LogWarning string exn
  | FieldFileSave string bytes
  | ModelSave quoteback
  | SaveM2M

record world =
  requests_get :: "event list \<Rightarrow> string \<Rightarrow> nat \<Rightarrow> exn + response"
  html_parser :: "bytes \<Rightarrow> exn + soup"
  bracketed_host_ok :: "string \<Rightarrow> bool"
  storage_save :: "event list \<Rightarrow> string \<Rightarrow> bytes \<Rightarrow> exn + string"
  model_save :: "event list \<Rightarrow> quoteback \<Rightarrow> exn + quoteback"
  form_save_m2m :: "event list \<Rightarrow> exn + unit"

definition raise_for_status :: "response \<Rightarrow> exn + unit" where
  \<comment> \<open>\<open>response.raise_for_status()\<close>: raises on the statuses 400 to 599\<close>
  "raise_for_status r =
     (if 400 \<le> status_code r \<and> status_code r < 600 then Inl (HTTPError (status_code r))
      else Inr ())"

definition USER_AGENT :: string where
  "USER_AGENT = ''Mozilla/5.0 (Macintosh; Intel Mac OS X 10_15_7) AppleWebKit/537.36''"

definition HEADERS :: "(string \<times> string) list" where
  "HEADERS = [(''User-Agent'', USER_AGENT)]"

section \<open>quoteback_utils: the two requests\<close>

definition fetch_page_metadata ::
  "world \<Rightarrow> event list \<Rightarrow> string \<Rightarrow> nat \<Rightarrow> (string \<rightharpoonup> string) \<times> event list" where
  \<comment> \<open>\<open>fetch_page_metadata(url, timeout)\<close>: the dictionary and the events so far. Each
      key is assigned as soon as its extractor returns, so an exception of a later
      extractor leaves the earlier keys assigned.\<close>
  "fetch_page_metadata w tr url timeout =
     (let metadata0 = [''title'' \<mapsto> [], ''author'' \<mapsto> [], ''favicon_url'' \<mapsto> []];
          tr1 = tr @ [HttpGet url HEADERS timeout];
          warn = LogWarning (''Error fetching metadata from '' @ url)
      in case requests_get w tr url timeout of
           Inl e \<Rightarrow> (metadata0, tr1 @ [warn e])
         | Inr resp \<Rightarrow>
        (case raise_for_status resp of
           Inl e \<Rightarrow> (metadata0, tr1 @ [warn e])
         | Inr _ \<Rightarrow>
        (case html_parser w (content resp) of
           Inl e \<Rightarrow> (metadata0, tr1 @ [warn e])
         | Inr soup \<Rightarrow>
        (let metadata1 = metadata0(''title'' \<mapsto> extract_title soup url);
             metadata2 = metadata1(''author'' \<mapsto> extract_author soup)
         in case extract_favicon_url (bracketed_host_ok w) soup url of
              Inl e \<Rightarrow> (metadata2, tr1 @ [warn e])
            | Inr f \<Rightarrow> (metadata2(''favicon_url'' \<mapsto> f), tr1)))))"

definition download_favicon ::
  "world \<Rightarrow> event list \<Rightarrow> string \<Rightarrow> nat \<Rightarrow> content_file option \<times> event list" where
  \<comment> \<open>\<open>download_favicon(favicon_url, timeout)\<close>: the file or \<open>None\<close>, and the events so far\<close>
  "download_favicon w tr favicon_url timeout =
     (let tr1 = tr @ [HttpGet favicon_url HEADERS timeout];
          warn = LogWarning (''Error downloading favicon from '' @ favicon_url)
      in case requests_get w tr favicon_url timeout of
           Inl e \<Rightarrow> (None, tr1 @ [warn e])
         | Inr resp \<Rightarrow>
        (case raise_for_status resp of
           Inl e \<Rightarrow> (None, tr1 @ [warn e])
         | Inr _ \<Rightarrow>
        (case urlparse (bracketed_host_ok w) favicon_url [] of
           Inl e \<Rightarrow> (None, tr1 @ [warn e])
         | Inr parsed \<Rightarrow>
        (let filename0 = last (py_split CHR ''/'' (path parsed));
             filename = (if \<not> py_contains ''.'' filename0 then ''favicon.ico'' else filename0)
         in (Some \<lparr>cf_content = content resp, cf_name = filename\<rparr>, tr1)))))"

section \<open>admin: QuotebackAdminForm.save\<close>

text \<open>
  The form is a validated one (it has \<open>cleaned_data\<close>). \<open>form_instance\<close> is the record
  that \<open>super().save(commit=False)\<close> returns, \<open>cleaned_fetch_metadata\<close> is
  \<open>cleaned_data.get("fetch_metadata")\<close>, and \<open>has_changed()\<close> is \<open>bool(changed_data)\<close>.
\<close>

record quoteback_form =
  form_instance :: quoteback
  cleaned_fetch_metadata :: "bool option"
  changed_data :: "string list"

definition has_changed :: "quoteback_form \<Rightarrow> bool" where
  "has_changed form = (changed_data form \<noteq> [])"

definition dict_get :: "(string \<rightharpoonup> string) \<Rightarrow> string \<Rightarrow> string \<Rightarrow> string" where
  \<comment> \<open>\<open>d.get(k, default)\<close>\<close>
  "dict_get d k dflt = (case d k of None \<Rightarrow> dflt | Some v \<Rightarrow> v)"

definition should_fetch :: "quoteback_form \<Rightarrow> quoteback \<Rightarrow> bool" where
  \<comment> \<open>the expression assigned to \<open>should_fetch\<close>; in Python \<open>and\<close> binds tighter than \<open>or\<close>\<close>
  "should_fetch form instance =
     (\<not> pk_truthy (pk instance) \<or>
      page_title instance = [] \<or>
      (has_changed form \<and> ''source_url'' \<in> set (changed_data form)))"

definition save_fetch_step ::
  "world \<Rightarrow> event list \<Rightarrow> quoteback_form \<Rightarrow> quoteback \<Rightarrow> (exn option \<times> quoteback) \<times> event list" where
  \<comment> \<open>the first statement of \<open>save\<close> after \<open>instance\<close> is bound, the fetch and the merge:
      the exception that left it, if any, the state of \<open>instance\<close> when it ends, and the
      events so far. \<open>if favicon_file\<close> tests for \<open>None\<close> (a \<open>ContentFile\<close> is always true).
      Only \<open>instance.favicon.save\<close> can raise here, and nothing catches it.\<close>
  "save_fetch_step w tr form instance =
     (if cleaned_fetch_metadata form = Some True \<and> source_url instance \<noteq> [] then
        if should_fetch form instance then
          (let (metadata, tr1) = fetch_page_metadata w tr (source_url instance) 10;
               instance1 = (if page_title instance = []
                            then instance\<lparr>page_title := dict_get metadata ''title'' []\<rparr>
                            else instance);
               instance2 = (if author instance1 = [] \<and> dict_get metadata ''author'' [] \<noteq> []
                            then instance1\<lparr>author := dict_get metadata ''author'' []\<rparr>
                            else instance1)
           in if dict_get metadata ''favicon_url'' [] \<noteq> [] \<and> \<not> file_truthy (favicon instance2) then
                (case download_favicon w tr1 (dict_get metadata ''favicon_url'' []) 10 of
                   (None, tr2) \<Rightarrow> ((None, instance2), tr2)
                 | (Some favicon_file, tr2) \<Rightarrow>
                     (let tr3 = tr2 @ [FieldFileSave (cf_name favicon_file) (cf_content favicon_file)]
                      in case storage_save w tr2 (cf_name favicon_file) (cf_content favicon_file) of
                           Inl e \<Rightarrow> ((Some e, instance2), tr3)
                         | Inr stored \<Rightarrow> ((None, instance2\<lparr>favicon := Some stored\<rparr>), tr3)))
              else ((None, instance2), tr1))
        else ((None, instance), tr)
      else ((None, instance), tr))"

definition save ::
  "world \<Rightarrow> event list \<Rightarrow> quoteback_form \<Rightarrow> bool \<Rightarrow> (exn + quoteback) \<times> event list" where
  \<comment> \<open>\<open>QuotebackAdminForm.save(commit)\<close>: the returned record, or the exception that
      left the method, and the events so far\<close>
  "save w tr form commit =
     (case save_fetch_step w tr form (form_instance form) of
        ((Some e, instance), tr1) \<Rightarrow> (Inl e, tr1)
      | ((None, instance), tr1) \<Rightarrow>
          if commit then
            (case model_save w tr1 instance of
               Inl e \<Rightarrow> (Inl e, tr1 @ [ModelSave instance])
             | Inr saved \<Rightarrow>
                 (case form_save_m2m w (tr1 @ [ModelSave instance]) of
                    Inl e \<Rightarrow> (Inl e, tr1 @ [ModelSave instance, SaveM2M])
                  | Inr _ \<Rightarrow> (Inr saved, tr1 @ [ModelSave instance, SaveM2M])))
          else (Inr instance, tr1))"

section \<open>The fallback chains as the specification words them\<close>

definition first_nonempty :: "string list \<Rightarrow> string" where
  \<comment> \<open>the first non-empty value of a list of candidates; empty when there is none\<close>
  "first_nonempty cands = (case filter (\<lambda>s. s \<noteq> []) cands of [] \<Rightarrow> [] | s # _ \<Rightarrow> s)"

definition meta_content :: "string \<Rightarrow> string \<Rightarrow> soup \<Rightarrow> string" where
  \<comment> \<open>the content attribute of the meta tag whose attribute \<open>k\<close> is \<open>v\<close>; empty when the
      tag or the attribute is missing\<close>
  "meta_content k v soup =
     (case soup_find ''meta'' (match_attr (rule_eq v) k) soup of
        None \<Rightarrow> []
      | Some t \<Rightarrow> (case attrs t ''content'' of None \<Rightarrow> [] | Some c \<Rightarrow> c))"

definition title_text :: "soup \<Rightarrow> string" where
  \<comment> \<open>the text of the plain title element; empty when there is no such element or text\<close>
  "title_text soup =
     (case soup_find ''title'' (\<lambda>t. True) soup of
        None \<Rightarrow> []
      | Some t \<Rightarrow> (case tag_string t of None \<Rightarrow> [] | Some s \<Rightarrow> s))"

definition spec_title :: "soup \<Rightarrow> string \<Rightarrow> string" where
  "spec_title soup url =
     first_nonempty
       [meta_content ''property'' ''og:title'' soup,
        meta_content ''name'' ''twitter:title'' soup,
        py_strip (title_text soup),
        url]"

definition spec_author :: "soup \<Rightarrow> string" where
  "spec_author soup =
     first_nonempty
       [meta_content ''property'' ''article:author'' soup,
        meta_content ''name'' ''author'' soup,
        py_lstrip ''@'' (meta_content ''name'' ''twitter:creator'' soup)]"

definition meta_tag :: "string \<Rightarrow> string \<Rightarrow> string \<Rightarrow> tag" where
  \<comment> \<open>\<open><meta k="v" content="c">\<close>\<close>
  "meta_tag k v c =
     \<lparr>tag_name = ''meta'', attrs = [k \<mapsto> v, ''content'' \<mapsto> c],
      multi_attrs = Map.empty, tag_string = None\<rparr>"

definition title_tag :: "string \<Rightarrow> tag" where
  \<comment> \<open>\<open><title>s</title>\<close>\<close>
  "title_tag s =
     \<lparr>tag_name = ''title'', attrs = Map.empty, multi_attrs = Map.empty, tag_string = Some s\<rparr>"







definition link_tag :: "string list \<Rightarrow> string option \<Rightarrow> tag" where
  \<comment> \<open>\<open><link rel="..." href="...">\<close>, or without href\<close>
  "link_tag rel href =
     \<lparr>tag_name = ''link'', attrs = (\<lambda>k. if k = ''href'' then href else None),
      multi_attrs = [''rel'' \<mapsto> rel], tag_string = None\<rparr>"

definition final_segment :: "string \<Rightarrow> string" where
  \<comment> \<open>the final segment of a path: what follows its last \<open>/\<close> (all of it when there is none)\<close>
  "final_segment p = rev (takeWhile (\<lambda>c. c \<noteq> CHR ''/'') (rev p))"

definition spec_filename :: "string \<Rightarrow> string" where
  \<comment> \<open>the name of the favicon asset, from the path of its URL\<close>
  "spec_filename p =
     (if CHR ''.'' \<in> set (final_segment p) then final_segment p else ''favicon.ico'')"

definition error_status :: "response \<Rightarrow> bool" where
  \<comment> \<open>an HTTP status that is an error: 4xx or 5xx\<close>
  "error_status r = (400 \<le> status_code r \<and> status_code r < 600)"


definition is_http_get :: "event \<Rightarrow> bool" where
  "is_http_get e = (case e of HttpGet _ _ _ \<Rightarrow> True | _ \<Rightarrow> False)"

definition is_file_save :: "event \<Rightarrow> bool" where
  "is_file_save e = (case e of FieldFileSave _ _ \<Rightarrow> True | _ \<Rightarrow> False)"

definition is_warning :: "event \<Rightarrow> bool" where
  "is_warning e = (case e of LogWarning _ _ \<Rightarrow> True | _ \<Rightarrow> False)"

definition page_metadata :: "world \<Rightarrow> event list \<Rightarrow> quoteback \<Rightarrow> (string \<rightharpoonup> string)" where
  \<comment> \<open>what the fetch of the source URL of a record returns\<close>
  "page_metadata w tr inst = fst (fetch_page_metadata w tr (source_url inst) 10)"

definition favicon_download ::
  "world \<Rightarrow> event list \<Rightarrow> quoteback \<Rightarrow> content_file option \<times> event list" where
  \<comment> \<open>the download of the favicon URL that the fetch of the source URL found\<close>
  "favicon_download w tr inst =
     download_favicon w (snd (fetch_page_metadata w tr (source_url inst) 10))
       (dict_get (page_metadata w tr inst) ''favicon_url'' []) 10"

definition new_events :: "event list \<Rightarrow> event list \<Rightarrow> event list" where
  \<comment> \<open>the events of a call that started after the events \<open>tr\<close> and ended with \<open>tr'\<close>\<close>
  "new_events tr tr' = drop (length tr) tr'"

definition spec_should_fetch :: "quoteback_form \<Rightarrow> quoteback \<Rightarrow> bool" where
  \<comment> \<open>the decision rule: flag set AND source URL present AND (new record OR no page
      title OR (form changed AND source_url among the changed fields))\<close>
  "spec_should_fetch form inst =
     (cleaned_fetch_metadata form = Some True \<and>
      source_url inst \<noteq> [] \<and>
      (\<not> pk_truthy (pk inst) \<or>
       page_title inst = [] \<or>
       (has_changed form \<and> ''source_url'' \<in> set (changed_data form))))"

definition fill_if_blank :: "(string \<rightharpoonup> string) \<Rightarrow> quoteback \<Rightarrow> quoteback" where
  \<comment> \<open>the merge rule on page title and author\<close>
  "fill_if_blank md inst =
     inst\<lparr>page_title := (if page_title inst = [] then dict_get md ''title'' [] else page_title inst),
          author := (if author inst = [] \<and> dict_get md ''author'' [] \<noteq> []
                     then dict_get md ''author'' [] else author inst)\<rparr>"

section \<open>Concrete documents, records and worlds\<close>

definition blank_quoteback :: quoteback where
  "blank_quoteback =
     \<lparr>pk = None, quote_text = ''q'', commentary = [], title = [], slug = ''q'',
      source_url = ''https://x.com/a'', page_title = [], author = [], favicon = None,
      tags = {}, created = 0, is_draft = False, series = None, card_image = None,
      metadata = ''{}'', import_ref = None\<rparr>"

definition page_body :: bytes where
  "page_body = [60, 112, 62]"

definition icon_body :: bytes where
  "icon_body = [0, 0, 1, 0]"

definition demo_soup :: soup where
  \<comment> \<open>a page with Open-Graph title "A", plain title "B", a Twitter creator and a shortcut icon\<close>
  "demo_soup =
     [meta_tag ''property'' ''og:title'' ''A'',
      title_tag ''B'',
      meta_tag ''name'' ''twitter:creator'' ''@alice'',
      link_tag [''shortcut'', ''icon''] (Some ''/f.png'')]"

definition demo_world :: "nat \<Rightarrow> world" where
  \<comment> \<open>a world whose page answers 200 with \<open>demo_soup\<close> and whose other URLs answer
      \<open>icon_status\<close> with the bytes of an icon\<close>
  "demo_world icon_status =
     \<lparr>requests_get = (\<lambda>tr url timeout.
         if url = ''https://x.com/a'' then Inr \<lparr>status_code = 200, content = page_body\<rparr>
         else Inr \<lparr>status_code = icon_status, content = icon_body\<rparr>),
      html_parser = (\<lambda>b. Inr demo_soup),
      bracketed_host_ok = (\<lambda>h. True),
      storage_save = (\<lambda>tr name b. Inr (''favicons/'' @ name)),
      model_save = (\<lambda>tr inst. Inr (inst\<lparr>pk := Some 1\<rparr>)),
      form_save_m2m = (\<lambda>tr. Inr ())\<rparr>"

definition dead_world :: world where
  \<comment> \<open>a world whose network is down\<close>
  "dead_world =
     \<lparr>requests_get = (\<lambda>tr url timeout. Inl (RequestException ''connection refused'')),
      html_parser = (\<lambda>b. Inl ParserError),
      bracketed_host_ok = (\<lambda>h. True),
      storage_save = (\<lambda>tr name b. Inl (StorageError ''read-only'')),
      model_save = (\<lambda>tr inst. Inr (inst\<lparr>pk := Some 1\<rparr>)),
      form_save_m2m = (\<lambda>tr. Inr ())\<rparr>"

definition demo_form :: "quoteback \<Rightarrow> quoteback_form" where
  "demo_form inst =
     \<lparr>form_instance = inst, cleaned_fetch_metadata = Some True, changed_data = []\<rparr>"

definition existing_quoteback :: quoteback where
  \<comment> \<open>a stored record with the page title "Existing", no author and no favicon\<close>
  "existing_quoteback = blank_quoteback\<lparr>pk := Some 7, page_title := ''Existing''\<rparr>"

definition edit_form :: quoteback_form where
  \<comment> \<open>an edit of that record in which the source URL changed\<close>
  "edit_form =
     \<lparr>form_instance = existing_quoteback, cleaned_fetch_metadata = Some True,
      changed_data = [''source_url'']\<rparr>"

section \<open>Facts about the string helpers\<close>



lemma py_contains_char: "py_contains [c] s \<longleftrightarrow> c \<in> set s"
  by (induction s) auto

lemma py_split_nonempty: "py_split sep s \<noteq> []"
  by (induction s) (auto split: list.splits)

lemma py_split_no_sep: "sep \<notin> set s \<Longrightarrow> py_split sep s = [s]"
  by (induction s) auto

lemma py_split_with_sep: "sep \<in> set s \<Longrightarrow> \<exists>a b bs. py_split sep s = a # b # bs"
proof (induction s)
  case Nil
  then show ?case by simp
next
  case (Cons c cs)
  show ?case
  proof (cases "c = sep")
    case True
    then show ?thesis using py_split_nonempty [of sep cs]
      by (cases "py_split sep cs") auto
  next
    case False
    then have "sep \<in> set cs" using Cons.prems by auto
    then obtain a b bs where "py_split sep cs = a # b # bs" using Cons.IH by blast
    then show ?thesis using False by simp
  qed
qed

lemma takeWhile_all_rev:
  assumes "sep \<notin> set s"
  shows "takeWhile (\<lambda>c. c \<noteq> sep) (rev s) = rev s"
proof -
  have "\<forall>x\<in>set (rev s). x \<noteq> sep" using assms by auto
  then show ?thesis by (simp only: takeWhile_eq_all_conv)
qed

lemma last_py_split: "last (py_split sep s) = rev (takeWhile (\<lambda>c. c \<noteq> sep) (rev s))"
proof (induction s)
  case Nil
  then show ?case by simp
next
  case (Cons c cs)
  consider (later) "sep \<in> set cs" | (here) "sep \<notin> set cs" "c = sep" | (none) "sep \<notin> set (c # cs)"
    by auto
  then show ?case
  proof cases
    case later
    then obtain a b bs where ab: "py_split sep cs = a # b # bs"
      using py_split_with_sep by blast
    have "last (py_split sep (c # cs)) = last (py_split sep cs)"
      using ab by simp
    moreover have "takeWhile (\<lambda>c. c \<noteq> sep) (rev cs @ [c]) = takeWhile (\<lambda>c. c \<noteq> sep) (rev cs)"
      using later by (simp add: takeWhile_append1)
    ultimately show ?thesis using Cons.IH by simp
  next
    case here
    have "py_split sep (c # cs) = [[], cs]"
      using here by (simp add: py_split_no_sep)
    moreover have "takeWhile (\<lambda>c. c \<noteq> sep) (rev cs @ [c]) = rev cs"
      using here takeWhile_all_rev [of sep cs] by (simp add: takeWhile_tail)
    ultimately show ?thesis by simp
  next
    case none
    have sp: "py_split sep (c # cs) = [c # cs]"
      using none by (rule py_split_no_sep)
    have tw: "takeWhile (\<lambda>c. c \<noteq> sep) (rev (c # cs)) = rev (c # cs)"
      using none by (rule takeWhile_all_rev)
    show ?thesis unfolding sp tw by simp
  qed
qed




section \<open>Facts about matching\<close>




section \<open>The URLs that the parser accepts\<close>





section \<open>Evaluation of the URL functions\<close>

lemmas url_defs =
  urljoin_def urlparse_def urlsplit_def Let_def before_def after_def splitnetloc_def splitparams_def
  c0_control_or_space_def unsafe_url_byte_def ascii_alpha_def scheme_chars_def
  py_lower_def py_lower_char_def uses_params_def uses_relative_def uses_netloc_def
  urlunparse_def urlunsplit_def resolve_segments_def


lemma urljoin_f_png: "urljoin bh ''https://x.com/a'' ''/f.png'' = Inr ''https://x.com/f.png''"
  by (simp add: url_defs)


lemma urlparse_f_png:
  "urlparse bh ''https://x.com/f.png'' [] =
     Inr \<lparr>scheme = ''https'', netloc = ''x.com'', path = ''/f.png'', params = [], query = [], fragment = []\<rparr>"
  by (simp add: url_defs)

lemmas soup_defs =
  soup_find_def match_attr_def rule_eq_def rule_icon_def truthy_attr_def
  meta_tag_def title_tag_def link_tag_def py_lower_def py_lower_char_def

section \<open>The title\<close>

lemma extract_title_agrees:
  "py_strip (title_text soup) \<noteq> [] \<or> title_text soup = []
     \<Longrightarrow> extract_title soup url = spec_title soup url"
  unfolding extract_title_def spec_title_def first_nonempty_def meta_content_def title_text_def
    truthy_attr_def Let_def
  by (auto split: option.splits simp: py_strip_def)

lemma extract_title_examples:
  "extract_title [meta_tag ''property'' ''og:title'' ''A'', title_tag ''B''] url = ''A''"
  "extract_title [] url = url"
  by (simp_all add: extract_title_def soup_defs)

text \<open>
  C4. The title is the first non-empty value of: the og:title content, the twitter:title
  content, the trimmed text of the title element, the input URL. The program tests the
  text of the title element before it trims it: on a page whose only title is
  \<open><title> </title>\<close> it returns the empty string, where the first non-empty value of
  the chain is the URL.
\<close>

theorem C4_title_of_blank_title_element:
  "extract_title [title_tag '' ''] ''https://x.com/a'' = []
   \<and> spec_title [title_tag '' ''] ''https://x.com/a'' = ''https://x.com/a''"
  by (simp add: extract_title_def spec_title_def first_nonempty_def meta_content_def
      title_text_def title_tag_def soup_find_def match_attr_def rule_eq_def truthy_attr_def
      py_strip_def py_isspace_def)

section \<open>The author\<close>

text \<open>
  C6. The author is the first non-empty value of: the article:author content, the author
  meta content, the twitter:creator content with its leading "@" stripped; the empty
  string when there is none. A twitter:creator of "@alice" gives "alice".
\<close>

theorem C6_author_chain:
  "extract_author soup = spec_author soup
   \<and> extract_author [meta_tag ''name'' ''twitter:creator'' ''@alice''] = ''alice''"
proof
  show "extract_author soup = spec_author soup"
    by (simp add: extract_author_def spec_author_def first_nonempty_def meta_content_def
        truthy_attr_def py_lstrip_def split: option.splits)
  show "extract_author [meta_tag ''name'' ''twitter:creator'' ''@alice''] = ''alice''"
    by (simp add: extract_author_def meta_tag_def soup_find_def match_attr_def rule_eq_def
        truthy_attr_def py_lstrip_def)
qed

theorem C6_author_chain_witness:
  "extract_author demo_soup = ''alice'' \<and> spec_author demo_soup = ''alice''"
  using C6_author_chain [of demo_soup]
  by (simp add: spec_author_def first_nonempty_def meta_content_def demo_soup_def
      soup_defs py_lstrip_def)

section \<open>The favicon URL\<close>



section \<open>The page request\<close>

lemma raise_for_status_iff: "raise_for_status r = (if error_status r then Inl (HTTPError (status_code r)) else Inr ())"
  by (simp add: raise_for_status_def error_status_def)

lemma fetch_page_metadata_events:
  "\<exists>ws. snd (fetch_page_metadata w tr url t) = tr @ HttpGet url HEADERS t # ws \<and> list_all is_warning ws"
  by (simp add: fetch_page_metadata_def Let_def is_warning_def split: sum.splits)

lemma download_favicon_events:
  "\<exists>ws. snd (download_favicon w tr url t) = tr @ HttpGet url HEADERS t # ws \<and> list_all is_warning ws"
  by (simp add: download_favicon_def Let_def is_warning_def split: sum.splits)

lemma demo_page_metadata:
  "fetch_page_metadata (demo_world st) tr ''https://x.com/a'' t =
     ([''title'' \<mapsto> ''A'', ''author'' \<mapsto> ''alice'', ''favicon_url'' \<mapsto> ''https://x.com/f.png''],
      tr @ [HttpGet ''https://x.com/a'' HEADERS t])"
proof -
  have t: "extract_title demo_soup ''https://x.com/a'' = ''A''"
    by (simp add: extract_title_def demo_soup_def soup_defs)
  have a: "extract_author demo_soup = ''alice''"
    by (simp add: extract_author_def demo_soup_def soup_defs py_lstrip_def)
  have f: "extract_favicon_url (\<lambda>h. True) demo_soup ''https://x.com/a'' = Inr ''https://x.com/f.png''"
    by (simp add: extract_favicon_url_def demo_soup_def soup_defs urljoin_f_png)
  show ?thesis
    by (simp add: fetch_page_metadata_def demo_world_def raise_for_status_def t a f) 
qed





section \<open>The favicon request\<close>

text \<open>
  C7. \<open>download_favicon\<close> returns a file exactly when the GET answers with a status that
  is not an error (and the URL is one \<open>urlparse\<close> accepts); the file then holds the
  bytes of the answer, under the final segment of the path of the URL, or under
  "favicon.ico" when that segment has no ".".
\<close>

theorem C7_download_favicon_file:
  "fst (download_favicon w tr u t) = Some f \<longleftrightarrow>
     (\<exists>resp p. requests_get w tr u t = Inr resp \<and> \<not> error_status resp
        \<and> urlparse (bracketed_host_ok w) u [] = Inr p
        \<and> f = \<lparr>cf_content = content resp, cf_name = spec_filename (path p)\<rparr>)"
proof -
  have name: "\<And>p. (if \<not> py_contains ''.'' (last (py_split CHR ''/'' p)) then ''favicon.ico''
                     else last (py_split CHR ''/'' p)) = spec_filename p"
    by (simp add: spec_filename_def final_segment_def last_py_split py_contains_char)
  show ?thesis
    unfolding download_favicon_def Let_def name raise_for_status_iff
    by (auto split: sum.splits)
qed

theorem C7_download_favicon_file_witness:
  "fst (download_favicon (demo_world 200) [] ''https://x.com/f.png'' 10)
     = Some \<lparr>cf_content = icon_body, cf_name = ''f.png''\<rparr>
   \<and> spec_filename ''/f.png'' = ''f.png''
   \<and> spec_filename ''/icons/apple'' = ''favicon.ico''"
proof -
  have n1: "spec_filename ''/f.png'' = ''f.png''"
    by (simp add: spec_filename_def final_segment_def)
  have n2: "spec_filename ''/icons/apple'' = ''favicon.ico''"
    by (simp add: spec_filename_def final_segment_def)
  have "\<exists>resp p. requests_get (demo_world 200) [] ''https://x.com/f.png'' 10 = Inr resp
          \<and> \<not> error_status resp
          \<and> urlparse (bracketed_host_ok (demo_world 200)) ''https://x.com/f.png'' [] = Inr p
          \<and> \<lparr>cf_content = icon_body, cf_name = ''f.png''\<rparr>
              = \<lparr>cf_content = content resp, cf_name = spec_filename (path p)\<rparr>"
    by (simp add: demo_world_def error_status_def urlparse_f_png n1)
  then have "fst (download_favicon (demo_world 200) [] ''https://x.com/f.png'' 10)
               = Some \<lparr>cf_content = icon_body, cf_name = ''f.png''\<rparr>"
    using C7_download_favicon_file
            [of "demo_world 200" "[]" "''https://x.com/f.png''" 10
                "\<lparr>cf_content = icon_body, cf_name = ''f.png''\<rparr>"]
    by blast
  then show ?thesis using n1 n2 by simp
qed

section \<open>The save of the admin form\<close>

lemma should_fetch_guard:
  "(cleaned_fetch_metadata form = Some True \<and> source_url inst \<noteq> [] \<and> should_fetch form inst)
     = spec_should_fetch form inst"
  by (auto simp: should_fetch_def spec_should_fetch_def)

lemma save_fetch_step_skipped:
  "\<not> spec_should_fetch form inst \<Longrightarrow> save_fetch_step w tr form inst = ((None, inst), tr)"
  unfolding should_fetch_guard [symmetric] by (auto simp: save_fetch_step_def)

lemma save_fetch_step_taken:
  assumes "spec_should_fetch form inst"
  shows "save_fetch_step w tr form inst =
     (let md = page_metadata w tr inst;
          tr1 = snd (fetch_page_metadata w tr (source_url inst) 10);
          merged = fill_if_blank md inst
      in if dict_get md ''favicon_url'' [] \<noteq> [] \<and> \<not> file_truthy (favicon inst) then
           (case favicon_download w tr inst of
              (None, tr2) \<Rightarrow> ((None, merged), tr2)
            | (Some dl, tr2) \<Rightarrow>
                (case storage_save w tr2 (cf_name dl) (cf_content dl) of
                   Inl e \<Rightarrow> ((Some e, merged), tr2 @ [FieldFileSave (cf_name dl) (cf_content dl)])
                 | Inr stored \<Rightarrow>
                     ((None, merged\<lparr>favicon := Some stored\<rparr>),
                      tr2 @ [FieldFileSave (cf_name dl) (cf_content dl)])))
         else ((None, merged), tr1))"
proof -
  have g: "cleaned_fetch_metadata form = Some True" "source_url inst \<noteq> []" "should_fetch form inst"
    using assms unfolding should_fetch_guard [symmetric] by auto
  obtain md tr1 where f: "fetch_page_metadata w tr (source_url inst) 10 = (md, tr1)"
    by (cases "fetch_page_metadata w tr (source_url inst) 10")
  have m: "(let i1 = (if page_title inst = []
                      then inst\<lparr>page_title := dict_get md ''title'' []\<rparr>
                      else inst)
            in if author i1 = [] \<and> dict_get md ''author'' [] \<noteq> []
               then i1\<lparr>author := dict_get md ''author'' []\<rparr> else i1)
           = fill_if_blank md inst"
    by (simp add: fill_if_blank_def Let_def)
  have fav: "favicon (fill_if_blank md inst) = favicon inst"
    by (simp add: fill_if_blank_def)
  show ?thesis
    using g f m fav
    by (auto simp: save_fetch_step_def page_metadata_def favicon_download_def Let_def
             split: prod.splits option.splits sum.splits)
qed

lemma fill_if_blank_shape:
  "fill_if_blank md inst =
     inst\<lparr>page_title := page_title (fill_if_blank md inst),
          author := author (fill_if_blank md inst),
          favicon := favicon inst\<rparr>"
  by (simp add: fill_if_blank_def)

lemma save_fetch_step_cases:
  assumes "spec_should_fetch form inst" "save_fetch_step w tr form inst = ((x, inst'), tr')"
  shows "inst' = fill_if_blank (page_metadata w tr inst) inst
         \<or> (\<not> file_truthy (favicon inst)
            \<and> (\<exists>stored. inst' = (fill_if_blank (page_metadata w tr inst) inst)\<lparr>favicon := Some stored\<rparr>))"
proof (cases "dict_get (page_metadata w tr inst) ''favicon_url'' [] \<noteq> [] \<and> \<not> file_truthy (favicon inst)")
  case False
  then show ?thesis using assms by (auto simp: save_fetch_step_taken Let_def)
next
  case True
  obtain dl tr2 where d: "favicon_download w tr inst = (dl, tr2)"
    by (cases "favicon_download w tr inst")
  show ?thesis
  proof (cases dl)
    case None
    then show ?thesis using assms True d by (simp add: save_fetch_step_taken Let_def)
  next
    case (Some cf)
    show ?thesis
    proof (cases "storage_save w tr2 (cf_name cf) (cf_content cf)")
      case (Inl e)
      then show ?thesis using assms True d Some by (simp add: save_fetch_step_taken Let_def)
    next
      case (Inr stored)
      then show ?thesis using assms True d Some by (auto simp: save_fetch_step_taken Let_def)
    qed
  qed
qed

lemma save_fetch_step_result:
  assumes "save_fetch_step w tr form inst = ((x, inst'), tr')"
  shows "inst' = (if spec_should_fetch form inst
                  then (fill_if_blank (page_metadata w tr inst) inst)\<lparr>favicon := favicon inst'\<rparr>
                  else inst)"
    and "file_truthy (favicon inst) \<Longrightarrow> favicon inst' = favicon inst"
proof -
  have fav: "\<And>md. favicon (fill_if_blank md inst) = favicon inst"
    by (simp add: fill_if_blank_def)
  show "inst' = (if spec_should_fetch form inst
                  then (fill_if_blank (page_metadata w tr inst) inst)\<lparr>favicon := favicon inst'\<rparr>
                  else inst)"
  proof (cases "spec_should_fetch form inst")
    case False
    then show ?thesis using assms by (simp add: save_fetch_step_skipped)
  next
    case True
    from save_fetch_step_cases [OF True assms]
    show ?thesis using True by auto
  qed
  show "file_truthy (favicon inst) \<Longrightarrow> favicon inst' = favicon inst"
  proof (cases "spec_should_fetch form inst")
    case False
    then show ?thesis using assms by (simp add: save_fetch_step_skipped)
  next
    case True
    assume "file_truthy (favicon inst)"
    then show ?thesis using save_fetch_step_cases [OF True assms] fav by auto
  qed
qed

lemma new_events_append: "new_events tr (tr @ es) = es"
  by (simp add: new_events_def)

lemma warnings_no_get: "list_all is_warning ws \<Longrightarrow> filter is_http_get ws = []"
  by (induction ws) (auto simp: is_warning_def is_http_get_def split: event.splits)

lemma warnings_no_file_save: "list_all is_warning ws \<Longrightarrow> \<not> list_ex is_file_save ws"
  by (induction ws) (auto simp: is_warning_def is_file_save_def split: event.splits)

lemma save_fetch_step_events:
  "\<exists>es. snd (save_fetch_step w tr form inst) = tr @ es
     \<and> (spec_should_fetch form inst \<longrightarrow> (\<exists>rest. es = HttpGet (source_url inst) HEADERS 10 # rest))
     \<and> length (filter is_http_get es) =
         (if \<not> spec_should_fetch form inst then 0
          else if dict_get (page_metadata w tr inst) ''favicon_url'' [] \<noteq> []
                  \<and> \<not> file_truthy (favicon inst) then 2
          else 1)
     \<and> (list_ex is_file_save es \<longrightarrow>
          spec_should_fetch form inst
          \<and> dict_get (page_metadata w tr inst) ''favicon_url'' [] \<noteq> []
          \<and> \<not> file_truthy (favicon inst)
          \<and> fst (favicon_download w tr inst) \<noteq> None)"
proof (cases "spec_should_fetch form inst")
  case False
  then show ?thesis by (simp add: save_fetch_step_skipped)
next
  case True
  let ?fu = "dict_get (page_metadata w tr inst) ''favicon_url'' []"
  obtain ws where ws: "snd (fetch_page_metadata w tr (source_url inst) 10)
                         = tr @ HttpGet (source_url inst) HEADERS 10 # ws" "list_all is_warning ws"
    using fetch_page_metadata_events by blast
  show ?thesis
  proof (cases "?fu \<noteq> [] \<and> \<not> file_truthy (favicon inst)")
    case False
    then have "snd (save_fetch_step w tr form inst) = tr @ HttpGet (source_url inst) HEADERS 10 # ws"
      using True ws by (auto simp: save_fetch_step_taken Let_def)
    then show ?thesis
      using True False ws(2) warnings_no_get [OF ws(2)] warnings_no_file_save [OF ws(2)]
      by (auto simp: is_http_get_def is_file_save_def)
  next
    case fav: True
    obtain ws2 where ws2: "snd (favicon_download w tr inst)
        = (tr @ HttpGet (source_url inst) HEADERS 10 # ws) @ HttpGet ?fu HEADERS 10 # ws2"
        "list_all is_warning ws2"
      using download_favicon_events [of w "snd (fetch_page_metadata w tr (source_url inst) 10)" ?fu 10]
      unfolding favicon_download_def ws(1) by blast
    obtain dl tr2 where d: "favicon_download w tr inst = (dl, tr2)"
      by (cases "favicon_download w tr inst")
    have tr2: "tr2 = tr @ HttpGet (source_url inst) HEADERS 10 # ws @ HttpGet ?fu HEADERS 10 # ws2"
      using ws2(1) d by simp
    have "\<exists>post. snd (save_fetch_step w tr form inst) = tr2 @ post
            \<and> filter is_http_get post = []
            \<and> (list_ex is_file_save post \<longrightarrow> dl \<noteq> None)"
      using True fav d
      by (auto simp: save_fetch_step_taken Let_def is_http_get_def is_file_save_def
               split: option.splits sum.splits)
    then obtain post where post: "snd (save_fetch_step w tr form inst) = tr2 @ post"
        "filter is_http_get post = []" "list_ex is_file_save post \<longrightarrow> dl \<noteq> None"
      by blast
    have "snd (save_fetch_step w tr form inst)
            = tr @ (HttpGet (source_url inst) HEADERS 10 # ws @ HttpGet ?fu HEADERS 10 # ws2 @ post)"
      using post(1) tr2 by simp
    then show ?thesis
      using True fav post(2,3) d ws(2) ws2(2)
        warnings_no_get [OF ws(2)] warnings_no_get [OF ws2(2)]
        warnings_no_file_save [OF ws(2)] warnings_no_file_save [OF ws2(2)]
      by (auto simp: is_http_get_def is_file_save_def)
  qed
qed

lemma save_events:
  "\<exists>post. snd (save w tr form commit) = snd (save_fetch_step w tr form (form_instance form)) @ post
     \<and> filter is_http_get post = [] \<and> \<not> list_ex is_file_save post"
  by (auto simp: save_def is_http_get_def is_file_save_def
           split: prod.splits option.splits sum.splits)

text \<open>
  C2. During \<open>save\<close> a request leaves the program if and only if the fetch-enabled flag
  is set AND the source URL of the record is non-empty AND (the record has no primary
  key, which is \<open>not instance.pk\<close>, OR its page title is blank OR (the form changed AND
  "source_url" is among the changed fields)); the first request is then the GET of the
  source URL.
\<close>

theorem C2_fetch_decision:
  "list_ex is_http_get (new_events tr (snd (save w tr form commit)))
     = spec_should_fetch form (form_instance form)
   \<and> (spec_should_fetch form (form_instance form) \<longrightarrow>
        hd (new_events tr (snd (save w tr form commit)))
          = HttpGet (source_url (form_instance form)) HEADERS 10)"
proof -
  let ?inst = "form_instance form"
  obtain es where es: "snd (save_fetch_step w tr form ?inst) = tr @ es"
      "spec_should_fetch form ?inst \<longrightarrow> (\<exists>rest. es = HttpGet (source_url ?inst) HEADERS 10 # rest)"
      "length (filter is_http_get es) =
         (if \<not> spec_should_fetch form ?inst then 0
          else if dict_get (page_metadata w tr ?inst) ''favicon_url'' [] \<noteq> []
                  \<and> \<not> file_truthy (favicon ?inst) then 2
          else 1)"
    using save_fetch_step_events [of w tr form ?inst] by blast
  obtain post where post: "snd (save w tr form commit) = (tr @ es) @ post"
      "filter is_http_get post = []"
    using save_events [of w tr form commit] es(1) by auto
  have ne: "new_events tr (snd (save w tr form commit)) = es @ post"
    using post(1) by (simp add: new_events_def)
  have "list_ex is_http_get (es @ post) = (filter is_http_get (es @ post) \<noteq> [])"
    by (auto simp: list_ex_iff filter_empty_conv)
  also have "\<dots> = (length (filter is_http_get es) \<noteq> 0)"
    using post(2) by simp
  also have "\<dots> = spec_should_fetch form ?inst"
    using es(3) by simp
  finally have a: "list_ex is_http_get (es @ post) = spec_should_fetch form ?inst" .
  have b: "spec_should_fetch form ?inst \<longrightarrow> hd (es @ post) = HttpGet (source_url ?inst) HEADERS 10"
    using es(2) by auto
  show ?thesis using a b unfolding ne by blast
qed

theorem C2_fetch_decision_witness:
  "spec_should_fetch (demo_form blank_quoteback) blank_quoteback
   \<and> hd (new_events [] (snd (save dead_world [] (demo_form blank_quoteback) False)))
       = HttpGet ''https://x.com/a'' HEADERS 10
   \<and> \<not> spec_should_fetch
         \<lparr>form_instance = blank_quoteback\<lparr>pk := Some 7, page_title := ''Existing''\<rparr>,
          cleaned_fetch_metadata = Some True, changed_data = [''commentary'']\<rparr>
         (blank_quoteback\<lparr>pk := Some 7, page_title := ''Existing''\<rparr>)
   \<and> \<not> list_ex is_http_get (new_events []
         (snd (save dead_world []
            \<lparr>form_instance = blank_quoteback\<lparr>pk := Some 7, page_title := ''Existing''\<rparr>,
             cleaned_fetch_metadata = Some True, changed_data = [''commentary'']\<rparr> True)))"
  using C2_fetch_decision [of "[]" dead_world "demo_form blank_quoteback" False]
        C2_fetch_decision [of "[]" dead_world
            "\<lparr>form_instance = blank_quoteback\<lparr>pk := Some 7, page_title := ''Existing''\<rparr>,
              cleaned_fetch_metadata = Some True, changed_data = [''commentary'']\<rparr>" True]
  by (simp add: spec_should_fetch_def demo_form_def blank_quoteback_def pk_truthy_def has_changed_def)

section \<open>Evaluation on the concrete worlds\<close>

lemma demo_source_url: "source_url blank_quoteback = ''https://x.com/a''"
    "source_url existing_quoteback = ''https://x.com/a''"
  by (simp_all add: blank_quoteback_def existing_quoteback_def)

lemma demo_page_metadata_of:
  "page_metadata (demo_world st) tr blank_quoteback =
     [''title'' \<mapsto> ''A'', ''author'' \<mapsto> ''alice'', ''favicon_url'' \<mapsto> ''https://x.com/f.png'']"
  "page_metadata (demo_world st) tr existing_quoteback =
     [''title'' \<mapsto> ''A'', ''author'' \<mapsto> ''alice'', ''favicon_url'' \<mapsto> ''https://x.com/f.png'']"
  by (simp_all add: page_metadata_def demo_source_url demo_page_metadata)

lemma demo_download_404:
  "download_favicon (demo_world 404) tr ''https://x.com/f.png'' 10 =
     (None, tr @ [HttpGet ''https://x.com/f.png'' HEADERS 10,
                  LogWarning ''Error downloading favicon from https://x.com/f.png'' (HTTPError 404)])"
  by (simp add: download_favicon_def demo_world_def raise_for_status_def)

lemma demo_download_200:
  "download_favicon (demo_world 200) tr ''https://x.com/f.png'' 10 =
     (Some \<lparr>cf_content = icon_body, cf_name = ''f.png''\<rparr>,
      tr @ [HttpGet ''https://x.com/f.png'' HEADERS 10])"
proof -
  have w: "requests_get (demo_world 200) tr ''https://x.com/f.png'' 10
             = Inr \<lparr>status_code = 200, content = icon_body\<rparr>"
       "bracketed_host_ok (demo_world 200) = (\<lambda>h. True)"
    by (simp_all add: demo_world_def)
  show ?thesis
    by (simp add: download_favicon_def w raise_for_status_def urlparse_f_png)
qed

lemma demo_favicon_download:
  "favicon_download (demo_world 404) tr blank_quoteback =
     (None, tr @ [HttpGet ''https://x.com/a'' HEADERS 10,
                  HttpGet ''https://x.com/f.png'' HEADERS 10,
                  LogWarning ''Error downloading favicon from https://x.com/f.png'' (HTTPError 404)])"
  "favicon_download (demo_world 200) tr existing_quoteback =
     (Some \<lparr>cf_content = icon_body, cf_name = ''f.png''\<rparr>,
      tr @ [HttpGet ''https://x.com/a'' HEADERS 10, HttpGet ''https://x.com/f.png'' HEADERS 10])"
  by (simp_all add: favicon_download_def demo_page_metadata_of demo_source_url demo_page_metadata
        dict_get_def demo_download_404 demo_download_200)

lemma demo_should_fetch:
  "spec_should_fetch (demo_form blank_quoteback) blank_quoteback"
  "spec_should_fetch edit_form existing_quoteback"
  by (simp_all add: spec_should_fetch_def demo_form_def edit_form_def blank_quoteback_def
        existing_quoteback_def pk_truthy_def has_changed_def)

lemma demo_fill:
  "fill_if_blank [''title'' \<mapsto> ''A'', ''author'' \<mapsto> ''alice'',
                  ''favicon_url'' \<mapsto> ''https://x.com/f.png''] blank_quoteback
     = blank_quoteback\<lparr>page_title := ''A'', author := ''alice''\<rparr>"
  "fill_if_blank [''title'' \<mapsto> ''A'', ''author'' \<mapsto> ''alice'',
                  ''favicon_url'' \<mapsto> ''https://x.com/f.png''] existing_quoteback
     = existing_quoteback\<lparr>author := ''alice''\<rparr>"
  "dict_get [''title'' \<mapsto> ''A'', ''author'' \<mapsto> ''alice'',
             ''favicon_url'' \<mapsto> ''https://x.com/f.png''] ''favicon_url'' [] = ''https://x.com/f.png''"
  "\<not> file_truthy (favicon blank_quoteback)"
  "\<not> file_truthy (favicon existing_quoteback)"
  by (simp_all add: fill_if_blank_def dict_get_def blank_quoteback_def existing_quoteback_def
        file_truthy_def)

lemma demo_step_404:
  "save_fetch_step (demo_world 404) [] (demo_form blank_quoteback) blank_quoteback =
     ((None, blank_quoteback\<lparr>page_title := ''A'', author := ''alice''\<rparr>),
      [HttpGet ''https://x.com/a'' HEADERS 10,
       HttpGet ''https://x.com/f.png'' HEADERS 10,
       LogWarning ''Error downloading favicon from https://x.com/f.png'' (HTTPError 404)])"
  by (simp add: save_fetch_step_taken [OF demo_should_fetch(1)] Let_def demo_page_metadata_of
        demo_fill demo_favicon_download)

lemma demo_storage:
  "storage_save (demo_world 200) tr ''f.png'' b = Inr ''favicons/f.png''"
  by (simp add: demo_world_def)

lemma demo_step_edit:
  "save_fetch_step (demo_world 200) [] edit_form existing_quoteback =
     ((None, existing_quoteback\<lparr>author := ''alice'', favicon := Some ''favicons/f.png''\<rparr>),
      [HttpGet ''https://x.com/a'' HEADERS 10,
       HttpGet ''https://x.com/f.png'' HEADERS 10,
       FieldFileSave ''f.png'' icon_body])"
  by (simp add: save_fetch_step_taken [OF demo_should_fetch(2)] Let_def demo_page_metadata_of
        demo_fill demo_favicon_download demo_storage)

section \<open>The merge and its frame\<close>

text \<open>
  C3. The merge of \<open>save\<close> fills blanks only. With \<open>md\<close> the fetched metadata and
  \<open>inst'\<close> the record when the fetch and merge end: a page title that is not blank is
  kept ("Existing" stays "Existing"), and a page title that changed is the fetched
  one; an author that changed was blank and is the fetched, non-empty author; a favicon
  that is set is kept; the favicon is requested (a second GET) exactly when the fetch
  took place, found a favicon URL and the record has no favicon, and a file is stored
  only then. The record so merged is the one \<open>save\<close> returns or hands to the database.
\<close>

theorem C3_merge_fill_if_blank:
  "save_fetch_step w tr form (form_instance form) = ((x, inst'), tr') \<longrightarrow>
     (page_title (form_instance form) \<noteq> [] \<longrightarrow> page_title inst' = page_title (form_instance form))
   \<and> (page_title (form_instance form) = ''Existing'' \<longrightarrow> page_title inst' = ''Existing'')
   \<and> (page_title inst' \<noteq> page_title (form_instance form) \<longrightarrow>
        page_title inst' = dict_get (page_metadata w tr (form_instance form)) ''title'' [])
   \<and> (author inst' \<noteq> author (form_instance form) \<longrightarrow>
        author (form_instance form) = []
        \<and> dict_get (page_metadata w tr (form_instance form)) ''author'' [] \<noteq> []
        \<and> author inst' = dict_get (page_metadata w tr (form_instance form)) ''author'' [])
   \<and> (spec_should_fetch form (form_instance form) \<longrightarrow>
        page_title inst' = page_title (fill_if_blank (page_metadata w tr (form_instance form)) (form_instance form))
        \<and> author inst' = author (fill_if_blank (page_metadata w tr (form_instance form)) (form_instance form)))
   \<and> (file_truthy (favicon (form_instance form)) \<longrightarrow> favicon inst' = favicon (form_instance form))
   \<and> length (filter is_http_get (new_events tr tr')) =
        (if \<not> spec_should_fetch form (form_instance form) then 0
         else if dict_get (page_metadata w tr (form_instance form)) ''favicon_url'' [] \<noteq> []
                 \<and> \<not> file_truthy (favicon (form_instance form)) then 2
         else 1)
   \<and> (list_ex is_file_save (new_events tr tr') \<longrightarrow>
        dict_get (page_metadata w tr (form_instance form)) ''favicon_url'' [] \<noteq> []
        \<and> \<not> file_truthy (favicon (form_instance form)))
   \<and> (x = None \<longrightarrow> save w tr form False = (Inr inst', tr')
                    \<and> ModelSave inst' \<in> set (snd (save w tr form True)))"
proof
  assume step: "save_fetch_step w tr form (form_instance form) = ((x, inst'), tr')"
  let ?inst = "form_instance form"
  let ?md = "page_metadata w tr ?inst"
  have res: "inst' = (if spec_should_fetch form ?inst
                      then (fill_if_blank ?md ?inst)\<lparr>favicon := favicon inst'\<rparr> else ?inst)"
    by (rule save_fetch_step_result(1) [OF step])
  have pt: "page_title inst' =
           (if spec_should_fetch form ?inst then page_title (fill_if_blank ?md ?inst)
            else page_title ?inst)"
    by (subst res) simp
  have au: "author inst' =
           (if spec_should_fetch form ?inst then author (fill_if_blank ?md ?inst) else author ?inst)"
    by (subst res) simp
  have fv: "file_truthy (favicon ?inst) \<longrightarrow> favicon inst' = favicon ?inst"
    using save_fetch_step_result(2) [OF step] by blast
  obtain es where es: "tr' = tr @ es"
      "length (filter is_http_get es) =
         (if \<not> spec_should_fetch form ?inst then 0
          else if dict_get ?md ''favicon_url'' [] \<noteq> [] \<and> \<not> file_truthy (favicon ?inst) then 2
          else 1)"
      "list_ex is_file_save es \<longrightarrow>
          dict_get ?md ''favicon_url'' [] \<noteq> [] \<and> \<not> file_truthy (favicon ?inst)"
    using save_fetch_step_events [of w tr form ?inst] step by auto
  have ne: "new_events tr tr' = es"
    using es(1) by (simp add: new_events_def)
  have c1: "page_title ?inst \<noteq> [] \<longrightarrow> page_title inst' = page_title ?inst"
    using pt by (simp add: fill_if_blank_def)
  have c2: "page_title ?inst = ''Existing'' \<longrightarrow> page_title inst' = ''Existing''"
    using c1 by auto
  have c3: "page_title inst' \<noteq> page_title ?inst \<longrightarrow> page_title inst' = dict_get ?md ''title'' []"
    using pt by (auto simp: fill_if_blank_def split: if_splits)
  have c4: "author inst' \<noteq> author ?inst \<longrightarrow>
        author ?inst = [] \<and> dict_get ?md ''author'' [] \<noteq> []
        \<and> author inst' = dict_get ?md ''author'' []"
    using au by (auto simp: fill_if_blank_def split: if_splits)
  have c5: "spec_should_fetch form ?inst \<longrightarrow>
        page_title inst' = page_title (fill_if_blank ?md ?inst)
        \<and> author inst' = author (fill_if_blank ?md ?inst)"
    using pt au by simp
  have c7: "length (filter is_http_get (new_events tr tr')) =
        (if \<not> spec_should_fetch form ?inst then 0
         else if dict_get ?md ''favicon_url'' [] \<noteq> [] \<and> \<not> file_truthy (favicon ?inst) then 2
         else 1)"
    unfolding ne by (rule es(2))
  have c8: "list_ex is_file_save (new_events tr tr') \<longrightarrow>
        dict_get ?md ''favicon_url'' [] \<noteq> [] \<and> \<not> file_truthy (favicon ?inst)"
    unfolding ne by (rule es(3))
  have c9: "x = None \<longrightarrow> save w tr form False = (Inr inst', tr')
                    \<and> ModelSave inst' \<in> set (snd (save w tr form True))"
    using step by (auto simp: save_def split: sum.splits)
  show "(page_title ?inst \<noteq> [] \<longrightarrow> page_title inst' = page_title ?inst)
   \<and> (page_title ?inst = ''Existing'' \<longrightarrow> page_title inst' = ''Existing'')
   \<and> (page_title inst' \<noteq> page_title ?inst \<longrightarrow> page_title inst' = dict_get ?md ''title'' [])
   \<and> (author inst' \<noteq> author ?inst \<longrightarrow>
        author ?inst = [] \<and> dict_get ?md ''author'' [] \<noteq> []
        \<and> author inst' = dict_get ?md ''author'' [])
   \<and> (spec_should_fetch form ?inst \<longrightarrow>
        page_title inst' = page_title (fill_if_blank ?md ?inst)
        \<and> author inst' = author (fill_if_blank ?md ?inst))
   \<and> (file_truthy (favicon ?inst) \<longrightarrow> favicon inst' = favicon ?inst)
   \<and> length (filter is_http_get (new_events tr tr')) =
        (if \<not> spec_should_fetch form ?inst then 0
         else if dict_get ?md ''favicon_url'' [] \<noteq> [] \<and> \<not> file_truthy (favicon ?inst) then 2
         else 1)
   \<and> (list_ex is_file_save (new_events tr tr') \<longrightarrow>
        dict_get ?md ''favicon_url'' [] \<noteq> [] \<and> \<not> file_truthy (favicon ?inst))
   \<and> (x = None \<longrightarrow> save w tr form False = (Inr inst', tr')
                    \<and> ModelSave inst' \<in> set (snd (save w tr form True)))"
    by (intro conjI) (fact c1 c2 c3 c4 c5 fv c7 c8 c9)+
qed

theorem C3_merge_fill_if_blank_witness:
  "save_fetch_step (demo_world 200) [] edit_form (form_instance edit_form) =
     ((None, existing_quoteback\<lparr>author := ''alice'', favicon := Some ''favicons/f.png''\<rparr>),
      [HttpGet ''https://x.com/a'' HEADERS 10,
       HttpGet ''https://x.com/f.png'' HEADERS 10,
       FieldFileSave ''f.png'' icon_body])
   \<and> page_title (form_instance edit_form) = ''Existing''
   \<and> page_title (existing_quoteback\<lparr>author := ''alice'', favicon := Some ''favicons/f.png''\<rparr>)
       = ''Existing''
   \<and> save (demo_world 200) [] edit_form False =
       (Inr (existing_quoteback\<lparr>author := ''alice'', favicon := Some ''favicons/f.png''\<rparr>),
        [HttpGet ''https://x.com/a'' HEADERS 10,
         HttpGet ''https://x.com/f.png'' HEADERS 10,
         FieldFileSave ''f.png'' icon_body])"
proof -
  have fi: "form_instance edit_form = existing_quoteback"
    by (simp add: edit_form_def)
  have step: "save_fetch_step (demo_world 200) [] edit_form (form_instance edit_form) =
     ((None, existing_quoteback\<lparr>author := ''alice'', favicon := Some ''favicons/f.png''\<rparr>),
      [HttpGet ''https://x.com/a'' HEADERS 10,
       HttpGet ''https://x.com/f.png'' HEADERS 10,
       FieldFileSave ''f.png'' icon_body])"
    unfolding fi by (rule demo_step_edit)
  have ex: "page_title (form_instance edit_form) = ''Existing''"
    by (simp add: fi existing_quoteback_def)
  from C3_merge_fill_if_blank [THEN mp, OF step] ex step
  show ?thesis by simp
qed

text \<open>
  C10. The fetch and merge of \<open>save\<close> assigns page_title, author and favicon only: when
  it ends, with or without an exception, whatever the network answered, the record
  differs from the one it started with in those three fields at most.
\<close>

theorem C10_fetch_step_frame:
  "save_fetch_step w tr form inst = ((x, inst'), tr') \<longrightarrow>
     inst' = inst\<lparr>page_title := page_title inst', author := author inst', favicon := favicon inst'\<rparr>
   \<and> pk inst' = pk inst \<and> quote_text inst' = quote_text inst \<and> commentary inst' = commentary inst
   \<and> title inst' = title inst \<and> slug inst' = slug inst \<and> source_url inst' = source_url inst
   \<and> tags inst' = tags inst \<and> created inst' = created inst \<and> is_draft inst' = is_draft inst
   \<and> series inst' = series inst \<and> card_image inst' = card_image inst
   \<and> metadata inst' = metadata inst \<and> import_ref inst' = import_ref inst"
proof
  assume step: "save_fetch_step w tr form inst = ((x, inst'), tr')"
  have res: "inst' = (if spec_should_fetch form inst
                      then (fill_if_blank (page_metadata w tr inst) inst)\<lparr>favicon := favicon inst'\<rparr>
                      else inst)"
    by (rule save_fetch_step_result(1) [OF step])
  have "\<exists>p a f. inst' = inst\<lparr>page_title := p, author := a, favicon := f\<rparr>"
  proof (cases "spec_should_fetch form inst")
    case True
    then have "inst' = inst\<lparr>page_title := page_title (fill_if_blank (page_metadata w tr inst) inst),
                            author := author (fill_if_blank (page_metadata w tr inst) inst),
                            favicon := favicon inst'\<rparr>"
      using res by (simp add: fill_if_blank_def)
    then show ?thesis by blast
  next
    case False
    then have "inst' = inst\<lparr>page_title := page_title inst, author := author inst,
                            favicon := favicon inst\<rparr>"
      using res by simp
    then show ?thesis by blast
  qed
  then obtain p a f where eq: "inst' = inst\<lparr>page_title := p, author := a, favicon := f\<rparr>" by blast
  show "inst' = inst\<lparr>page_title := page_title inst', author := author inst', favicon := favicon inst'\<rparr>
   \<and> pk inst' = pk inst \<and> quote_text inst' = quote_text inst \<and> commentary inst' = commentary inst
   \<and> title inst' = title inst \<and> slug inst' = slug inst \<and> source_url inst' = source_url inst
   \<and> tags inst' = tags inst \<and> created inst' = created inst \<and> is_draft inst' = is_draft inst
   \<and> series inst' = series inst \<and> card_image inst' = card_image inst
   \<and> metadata inst' = metadata inst \<and> import_ref inst' = import_ref inst"
    unfolding eq by simp
qed

theorem C10_fetch_step_frame_witness:
  "save_fetch_step (demo_world 404) [] (demo_form blank_quoteback) blank_quoteback =
     ((None, blank_quoteback\<lparr>page_title := ''A'', author := ''alice''\<rparr>),
      [HttpGet ''https://x.com/a'' HEADERS 10,
       HttpGet ''https://x.com/f.png'' HEADERS 10,
       LogWarning ''Error downloading favicon from https://x.com/f.png'' (HTTPError 404)])
   \<and> quote_text (blank_quoteback\<lparr>page_title := ''A'', author := ''alice''\<rparr>) = quote_text blank_quoteback
   \<and> source_url (blank_quoteback\<lparr>page_title := ''A'', author := ''alice''\<rparr>) = source_url blank_quoteback
   \<and> tags (blank_quoteback\<lparr>page_title := ''A'', author := ''alice''\<rparr>) = tags blank_quoteback"
  using C10_fetch_step_frame [THEN mp, OF demo_step_404] demo_step_404
  by simp

section \<open>The save when the favicon cannot be downloaded\<close>



end
